theory Spec2Isabelle
  imports Main "HOL-Library.Multiset"
begin

section \<open>The AWS provisioner of inletsctl (pkg/provision/aws.go)\<close>

text \<open>
  The provisioner talks to EC2 through an SDK client. The client is the only state the
  Go code holds, so the model threads a \<open>world\<close> through every method: the backend's own
  state (abstract, of type \<open>'s\<close>) and the list of SDK calls issued so far. A Go function
  returning \<open>(T, error)\<close> returns \<open>error + T\<close> here; a runtime panic is an \<open>error\<close> as well,
  so that an unchecked \<open>xs[0]\<close> is a branch of the model and not an unspecified value.
  The two library functions whose exact behaviour the Go documentation leaves open,
  \<open>time.Parse\<close> and \<open>sort.Slice\<close>, are parameters of the model (\<open>lib\<close>), so that what is
  proved holds for the library as it is and not for one reading of it.
\<close>

subsection \<open>Errors and panics\<close>

datatype num_err = ErrSyntax | ErrRange

datatype error =
    AWSError string
  | NumError string num_err
  | PanicIndexOutOfRange nat nat

text \<open>
  \<open>AWSError msg\<close> is an error value returned by an SDK call; \<open>NumError s e\<close> is the
  \<open>*strconv.NumError\<close> of \<open>strconv.ParseInt\<close> on the input \<open>s\<close>;
  \<open>PanicIndexOutOfRange i n\<close> is the runtime panic "index out of range [i] with length n".
\<close>

subsection \<open>The Go library functions the provisioner calls\<close>

text \<open>
  \<open>strconv.ParseInt(s, 10, 64)\<close>: an optional sign, then one or more decimal digits and
  nothing else; a syntax error otherwise, a range error outside the int64 range.
\<close>

definition digit :: "char \<Rightarrow> nat option" where
  "digit c = (let n = (of_char c :: nat) in if 48 \<le> n \<and> n \<le> 57 then Some (n - 48) else None)"

fun atoi :: "nat \<Rightarrow> string \<Rightarrow> nat option" where
  "atoi acc [] = Some acc"
| "atoi acc (c # cs) = (case digit c of None \<Rightarrow> None | Some d \<Rightarrow> atoi (10 * acc + d) cs)"

definition ParseUint :: "string \<Rightarrow> nat option" where
  "ParseUint s = (if s = [] then None else atoi 0 s)"

definition ParseInt :: "string \<Rightarrow> error + int" where
  "ParseInt s =
     (if s = [] then Inl (NumError s ErrSyntax)
      else
        let neg = (hd s = CHR ''-'');
            body = (if hd s = CHR ''+'' \<or> hd s = CHR ''-'' then tl s else s)
        in case ParseUint body of
             None \<Rightarrow> Inl (NumError s ErrSyntax)
           | Some un \<Rightarrow>
               if \<not> neg \<and> un \<ge> 2 ^ 63 then Inl (NumError s ErrRange)
               else if neg \<and> un > 2 ^ 63 then Inl (NumError s ErrRange)
               else Inr (if neg then - int un else int un))"

text \<open>
  A \<open>time.Time\<close> that comes out of \<open>time.Parse\<close> is an instant; the model keeps it as the
  number of nanoseconds since 1970-01-01T00:00:00Z, and \<open>t.After(u)\<close> compares instants.
\<close>

type_synonym time = int

definition After :: "time \<Rightarrow> time \<Rightarrow> bool" where
  "After t u = (t > u)"

text \<open>
  \<open>sort.Slice(xs, less)\<close>. Go documents that the slice is sorted by \<open>less\<close> and that the sort
  is not stable; the algorithm behind it differs between releases. So the algorithm is a
  parameter of the model, and what the model fixes is the guarantee: the result is a
  reordering of the slice in which no element is \<open>less\<close> than an earlier one. \<open>sort_Slice\<close>
  returns what the given algorithm returns whenever that is such a reordering, as it is for
  the library's own algorithm; for a parameter that breaks the guarantee it falls back on
  insertion sort (each element in turn moves left while it is \<open>less\<close> than its left
  neighbour; the sorted prefix \<open>pre\<close> is kept reversed, so its head is that neighbour).
\<close>

type_synonym 'a sort_algorithm = "('a \<Rightarrow> 'a \<Rightarrow> bool) \<Rightarrow> 'a list \<Rightarrow> 'a list"

definition ordered_by :: "('a \<Rightarrow> 'a \<Rightarrow> bool) \<Rightarrow> 'a list \<Rightarrow> bool" where
  "ordered_by lessf xs = sorted_wrt (\<lambda>a b. \<not> lessf b a) xs"

fun insert_left :: "('a \<Rightarrow> 'a \<Rightarrow> bool) \<Rightarrow> 'a \<Rightarrow> 'a list \<Rightarrow> 'a list" where
  "insert_left lessf x [] = [x]"
| "insert_left lessf x (y # ys) = (if lessf x y then y # insert_left lessf x ys else x # y # ys)"

fun insertionSort :: "('a \<Rightarrow> 'a \<Rightarrow> bool) \<Rightarrow> 'a list \<Rightarrow> 'a list \<Rightarrow> 'a list" where
  "insertionSort lessf pre [] = rev pre"
| "insertionSort lessf pre (x # xs) = insertionSort lessf (insert_left lessf x pre) xs"

definition sort_Slice :: "'a sort_algorithm \<Rightarrow> ('a \<Rightarrow> 'a \<Rightarrow> bool) \<Rightarrow> 'a list \<Rightarrow> 'a list" where
  "sort_Slice algorithm lessf xs =
     (let ys = algorithm lessf xs
      in if mset ys = mset xs \<and> ordered_by lessf ys then ys else insertionSort lessf [] xs)"

text \<open>
  \<open>base64.StdEncoding.EncodeToString\<close>: three bytes become four characters of the
  standard alphabet, the last group padded with \<open>=\<close>.
\<close>

definition encodeStd :: string where
  "encodeStd = ''ABCDEFGHIJKLMNOPQRSTUVWXYZabcdefghijklmnopqrstuvwxyz0123456789+/''"

fun encode_bytes :: "nat list \<Rightarrow> string" where
  "encode_bytes [] = []"
| "encode_bytes [a] =
     [encodeStd ! (a div 4), encodeStd ! ((a mod 4) * 16), CHR ''='', CHR ''='']"
| "encode_bytes [a, b] =
     [encodeStd ! (a div 4), encodeStd ! ((a mod 4) * 16 + b div 16),
      encodeStd ! ((b mod 16) * 4), CHR ''='']"
| "encode_bytes (a # b # c # rest) =
     [encodeStd ! (a div 4), encodeStd ! ((a mod 4) * 16 + b div 16),
      encodeStd ! ((b mod 16) * 4 + c div 64), encodeStd ! (c mod 64)] @ encode_bytes rest"

definition EncodeToString :: "string \<Rightarrow> string" where
  "EncodeToString s = encode_bytes (map of_char s)"

subsection \<open>The SDK's request and response structures\<close>

text \<open>
  Only the fields the provisioner reads or writes are kept. A field the code dereferences
  without a test is a plain value (the backend fills it in); \<open>PublicIpAddress\<close>, which the
  code tests against nil, is an option.
\<close>

record Filter =
  FilterName :: string
  FilterValues :: "string list"

record DescribeImagesInput =
  Filters :: "Filter list"

record Image =
  ImageId :: string
  CreationDate :: string

record Vpc =
  IsDefault :: bool
  VpcId :: string

record CreateSecurityGroupInput =
  Description :: string
  GroupName :: string
  GroupVpcId :: string

record IpRange =
  CidrIp :: string

record IpPermission =
  IpProtocol :: string
  FromPort :: int
  ToPort :: int
  IpRanges :: "IpRange list"

record AuthorizeSecurityGroupIngressInput =
  GroupId :: string
  IpPermissions :: "IpPermission list"

record EbsBlockDevice =
  VolumeSize :: int

record BlockDeviceMapping =
  DeviceName :: string
  Ebs :: EbsBlockDevice

record Tag =
  TagKey :: string
  TagValue :: string

record TagSpecification =
  ResourceType :: string
  Tags :: "Tag list"

record RunInstancesInput =
  RunImageId :: string
  InstanceType :: string
  MinCount :: int
  MaxCount :: int
  RunUserData :: string
  SecurityGroupIds :: "string list"
  BlockDeviceMappings :: "BlockDeviceMapping list"
  TagSpecifications :: "TagSpecification list"

record Instance =
  InstanceId :: string
  PublicIpAddress :: "string option"
  StateName :: string

record Reservation =
  Instances :: "Instance list"

record DescribeInstancesInput =
  DescribeInstanceIds :: "string list"

record TerminateInstancesInput =
  TerminateInstanceIds :: "string list"

subsection \<open>The client and the world\<close>

datatype call =
    DescribeImagesCall DescribeImagesInput
  | DescribeVpcsCall
  | CreateDefaultVpcCall
  | CreateSecurityGroupCall CreateSecurityGroupInput
  | AuthorizeSecurityGroupIngressCall AuthorizeSecurityGroupIngressInput
  | RunInstancesCall RunInstancesInput
  | DescribeInstancesCall DescribeInstancesInput
  | TerminateInstancesCall TerminateInstancesInput

text \<open>
  The backend is any deterministic machine over a state \<open>'s\<close>: each operation of the SDK
  takes the request and the state and gives the response (or the error) and the next state.
\<close>

record 's EC2 =
  DescribeImages :: "DescribeImagesInput \<Rightarrow> 's \<Rightarrow> (error + Image list) \<times> 's"
  DescribeVpcs :: "'s \<Rightarrow> (error + Vpc list) \<times> 's"
  CreateDefaultVpc :: "'s \<Rightarrow> (error + Vpc) \<times> 's"
  CreateSecurityGroup :: "CreateSecurityGroupInput \<Rightarrow> 's \<Rightarrow> (error + string) \<times> 's"
  AuthorizeSecurityGroupIngress :: "AuthorizeSecurityGroupIngressInput \<Rightarrow> 's \<Rightarrow> error option \<times> 's"
  RunInstances :: "RunInstancesInput \<Rightarrow> 's \<Rightarrow> (error + Reservation) \<times> 's"
  DescribeInstances :: "DescribeInstancesInput \<Rightarrow> 's \<Rightarrow> (error + Reservation list) \<times> 's"
  TerminateInstances :: "TerminateInstancesInput \<Rightarrow> 's \<Rightarrow> error option \<times> 's"

record 's world =
  backend :: 's
  calls :: "call list"

text \<open>\<open>p.client.Op(input)\<close>: the call is logged and the backend answers.\<close>

definition invoke :: "call \<Rightarrow> ('s \<Rightarrow> 'r \<times> 's) \<Rightarrow> 's world \<Rightarrow> 'r \<times> 's world" where
  "invoke c op w =
     (let (r, s') = op (backend w) in (r, \<lparr>backend = s', calls = calls w @ [c]\<rparr>))"

subsection \<open>The package's host types\<close>

text \<open>
  \<open>BasicHost\<close>, \<open>ProvisionedHost\<close> and \<open>ActiveStatus\<close> are declared in another file of the
  package; the records keep the fields aws.go uses (the host's \<open>Status\<close> field is
  \<open>HostStatus\<close> here, \<open>Status\<close> being the method). A Go map read of a missing key gives
  the empty string.
\<close>

record BasicHost =
  Name :: string
  OS :: string
  Plan :: string
  UserData :: string
  Additional :: "string \<rightharpoonup> string"

record ProvisionedHost =
  ID :: string
  IP :: string
  HostStatus :: string

definition map_get :: "(string \<rightharpoonup> string) \<Rightarrow> string \<Rightarrow> string" where
  "map_get m k = (case m k of None \<Rightarrow> [] | Some v \<Rightarrow> v)"

text \<open>
  Modelled from the spec: the constant \<open>ActiveStatus\<close> is not declared in aws.go; the spec
  calls it the single canonical "active" value. No proof below depends on its spelling.
\<close>

definition ActiveStatus :: string where
  "ActiveStatus = ''active''"

subsection \<open>aws.go\<close>

record ami =
  ami_ID :: string
  ami_CreationDate :: time

text \<open>
  The library as the provisioner sees it. \<open>time_Parse lib s\<close> is
  \<open>time.Parse(time.RFC3339, s)\<close>: the instant, or \<open>None\<close> where the library returns a non-nil
  error; nothing is assumed about which strings it accepts. \<open>Slice_algorithm lib\<close> is the
  algorithm behind \<open>sort.Slice\<close>.
\<close>

record GoLib =
  time_Parse :: "string \<Rightarrow> time option"
  Slice_algorithm :: "ami sort_algorithm"

text \<open>
  The loop of \<open>findAMI\<close> (lines 156-165): each image's creation date is parsed and the image
  appended; the first date that does not parse leaves the loop (\<open>break\<close>).
\<close>

fun parse_images :: "GoLib \<Rightarrow> ami list \<Rightarrow> Image list \<Rightarrow> ami list" where
  "parse_images lib images [] = images"
| "parse_images lib images (img # rest) =
     (case time_Parse lib (CreationDate img) of
        None \<Rightarrow> images
      | Some parsed \<Rightarrow>
          parse_images lib (images @ [\<lparr>ami_ID = ImageId img, ami_CreationDate = parsed\<rparr>]) rest)"

definition findAMI_input :: "string \<Rightarrow> DescribeImagesInput" where
  "findAMI_input name =
     \<lparr>Filters =
        [\<lparr>FilterName = ''name'', FilterValues = [name]\<rparr>,
         \<lparr>FilterName = ''is-public'', FilterValues = [''true'']\<rparr>,
         \<lparr>FilterName = ''architecture'', FilterValues = [''x86_64'']\<rparr>,
         \<lparr>FilterName = ''state'', FilterValues = [''available'']\<rparr>]\<rparr>"

definition latest_first :: "ami \<Rightarrow> ami \<Rightarrow> bool" where
  "latest_first a b = After (ami_CreationDate a) (ami_CreationDate b)"

definition findAMI ::
  "GoLib \<Rightarrow> 's EC2 \<Rightarrow> string \<Rightarrow> 's world \<Rightarrow> (error + string) \<times> 's world" where
  "findAMI lib p name w =
     (let input = findAMI_input name;
          (describeResult, w1) = invoke (DescribeImagesCall input) (DescribeImages p input) w
      in case describeResult of
           Inl err \<Rightarrow> (Inl err, w1)
         | Inr describedImages \<Rightarrow>
             (let images = parse_images lib [] describedImages;
                  images = sort_Slice (Slice_algorithm lib) latest_first images
              in case images of
                   [] \<Rightarrow> (Inl (PanicIndexOutOfRange 0 0), w1)
                 | first # _ \<Rightarrow> (Inr (ami_ID first), w1)))"

fun first_default :: "Vpc list \<Rightarrow> string option" where
  "first_default [] = None"
| "first_default (vpc # rest) = (if IsDefault vpc then Some (VpcId vpc) else first_default rest)"

definition getOrCreateDefaultVPC :: "'s EC2 \<Rightarrow> 's world \<Rightarrow> (error + string) \<times> 's world" where
  "getOrCreateDefaultVPC p w =
     (let (describeResult, w1) = invoke DescribeVpcsCall (DescribeVpcs p) w
      in case describeResult of
           Inl err \<Rightarrow> (Inl err, w1)
         | Inr vpcs \<Rightarrow>
             (case first_default vpcs of
                Some vpcID \<Rightarrow> (Inr vpcID, w1)
              | None \<Rightarrow>
                  (let (createResult, w2) = invoke CreateDefaultVpcCall (CreateDefaultVpc p) w1
                   in case createResult of
                        Inl err \<Rightarrow> (Inl err, w2)
                      | Inr vpc \<Rightarrow> (Inr (VpcId vpc), w2))))"

definition tcp_rule :: "int \<Rightarrow> IpPermission" where
  "tcp_rule port =
     \<lparr>IpProtocol = ''tcp'', FromPort = port, ToPort = port,
      IpRanges = [\<lparr>CidrIp = ''0.0.0.0/0''\<rparr>]\<rparr>"

text \<open>
  \<open>createSecurityGroup\<close> returns the group's identifier together with the error of the
  authorization call, so the model returns the pair as the Go function does. The port is an
  \<open>int64\<close> that is only passed on, never computed with, so it is an \<open>int\<close> here.
\<close>

definition createSecurityGroup ::
  "'s EC2 \<Rightarrow> string \<Rightarrow> string \<Rightarrow> int \<Rightarrow> 's world \<Rightarrow> (string \<times> error option) \<times> 's world" where
  "createSecurityGroup p vpcID hostname inletsPort w =
     (let groupInput = \<lparr>Description = ''Inlets security group'',
                         GroupName = ''inlets-sg-'' @ hostname,
                         GroupVpcId = vpcID\<rparr>;
          (securityGroupResult, w1) =
             invoke (CreateSecurityGroupCall groupInput) (CreateSecurityGroup p groupInput) w
      in case securityGroupResult of
           Inl err \<Rightarrow> (([], Some err), w1)
         | Inr groupId \<Rightarrow>
             (let ingressInput = \<lparr>GroupId = groupId,
                                   IpPermissions = [tcp_rule 80, tcp_rule 443, tcp_rule inletsPort]\<rparr>;
                  (err, w2) = invoke (AuthorizeSecurityGroupIngressCall ingressInput)
                                (AuthorizeSecurityGroupIngress p ingressInput) w1
              in ((groupId, err), w2)))"

definition reservationToPrivionedHost :: "Reservation \<Rightarrow> error + ProvisionedHost" where
  "reservationToPrivionedHost reservation =
     (case Instances reservation of
        [] \<Rightarrow> Inl (PanicIndexOutOfRange 0 0)
      | inst # _ \<Rightarrow>
          (let ip = (case PublicIpAddress inst of None \<Rightarrow> [] | Some a \<Rightarrow> a);
               state = StateName inst;
               state = (if state = ''running'' then ActiveStatus else state)
           in Inr \<lparr>ID = InstanceId inst, IP = ip, HostStatus = state\<rparr>))"

definition run_input :: "BasicHost \<Rightarrow> string \<Rightarrow> string \<Rightarrow> RunInstancesInput" where
  "run_input host ami securityGroupID =
     \<lparr>RunImageId = ami,
      InstanceType = Plan host,
      MinCount = 1,
      MaxCount = 1,
      RunUserData = EncodeToString (UserData host),
      SecurityGroupIds = [securityGroupID],
      BlockDeviceMappings = [\<lparr>DeviceName = ''/dev/sdh'', Ebs = \<lparr>VolumeSize = 20\<rparr>\<rparr>],
      TagSpecifications =
        [\<lparr>ResourceType = ''instance'', Tags = [\<lparr>TagKey = ''name'', TagValue = Name host\<rparr>]\<rparr>]\<rparr>"

definition Provision ::
  "GoLib \<Rightarrow> 's EC2 \<Rightarrow> BasicHost \<Rightarrow> 's world \<Rightarrow> (error + ProvisionedHost) \<times> 's world" where
  "Provision lib p host w =
     (case findAMI lib p (OS host) w of
        (Inl err, w1) \<Rightarrow> (Inl err, w1)
      | (Inr ami, w1) \<Rightarrow>
          (case ParseInt (map_get (Additional host) ''inlets-port'') of
             Inl err \<Rightarrow> (Inl err, w1)
           | Inr inletsPort \<Rightarrow>
               (case getOrCreateDefaultVPC p w1 of
                  (Inl err, w2) \<Rightarrow> (Inl err, w2)
                | (Inr vpcID, w2) \<Rightarrow>
                    (case createSecurityGroup p vpcID (Name host) inletsPort w2 of
                       ((securityGroupID, Some err), w3) \<Rightarrow> (Inl err, w3)
                     | ((securityGroupID, None), w3) \<Rightarrow>
                         (let input = run_input host ami securityGroupID;
                              (runResult, w4) = invoke (RunInstancesCall input) (RunInstances p input) w3
                          in case runResult of
                               Inl err \<Rightarrow> (Inl err, w4)
                             | Inr reservation \<Rightarrow> (reservationToPrivionedHost reservation, w4))))))"

definition Status :: "'s EC2 \<Rightarrow> string \<Rightarrow> 's world \<Rightarrow> (error + ProvisionedHost) \<times> 's world" where
  "Status p ident w =
     (let input = \<lparr>DescribeInstanceIds = [ident]\<rparr>;
          (describeResult, w1) = invoke (DescribeInstancesCall input) (DescribeInstances p input) w
      in case describeResult of
           Inl err \<Rightarrow> (Inl err, w1)
         | Inr reservations \<Rightarrow>
             (case reservations of
                [] \<Rightarrow> (Inl (PanicIndexOutOfRange 0 0), w1)
              | result # _ \<Rightarrow> (reservationToPrivionedHost result, w1)))"

definition Delete :: "'s EC2 \<Rightarrow> string \<Rightarrow> 's world \<Rightarrow> error option \<times> 's world" where
  "Delete p ident w =
     (let input = \<lparr>TerminateInstanceIds = [ident]\<rparr>
      in invoke (TerminateInstancesCall input) (TerminateInstances p input) w)"

subsection \<open>The second copy of the file (\<open>src/unnamed/part_000\<close>)\<close>

text \<open>
  The repository holds a second, shorter copy of aws.go (its \<open>Provision\<close> has no network
  steps). It has its own \<open>findAMI\<close> and
  \<open>reservationToPrivionedHost\<close>, translated here from that file's lines 115-160 and
  162-180, to be compared with the definitions above.
\<close>

fun parse_images_part000 :: "GoLib \<Rightarrow> ami list \<Rightarrow> Image list \<Rightarrow> ami list" where
  "parse_images_part000 lib images [] = images"
| "parse_images_part000 lib images (img # rest) =
     (case time_Parse lib (CreationDate img) of
        None \<Rightarrow> images
      | Some parsed \<Rightarrow>
          parse_images_part000 lib (images @ [\<lparr>ami_ID = ImageId img, ami_CreationDate = parsed\<rparr>]) rest)"

definition findAMI_part000 ::
  "GoLib \<Rightarrow> 's EC2 \<Rightarrow> string \<Rightarrow> 's world \<Rightarrow> (error + string) \<times> 's world" where
  "findAMI_part000 lib p name w =
     (let input = \<lparr>Filters =
                     [\<lparr>FilterName = ''name'', FilterValues = [name]\<rparr>,
                      \<lparr>FilterName = ''is-public'', FilterValues = [''true'']\<rparr>,
                      \<lparr>FilterName = ''architecture'', FilterValues = [''x86_64'']\<rparr>,
                      \<lparr>FilterName = ''state'', FilterValues = [''available'']\<rparr>]\<rparr>;
          (describeResult, w1) = invoke (DescribeImagesCall input) (DescribeImages p input) w
      in case describeResult of
           Inl err \<Rightarrow> (Inl err, w1)
         | Inr describedImages \<Rightarrow>
             (let images = parse_images_part000 lib [] describedImages;
                  images = sort_Slice (Slice_algorithm lib) (\<lambda>a b. After (ami_CreationDate a) (ami_CreationDate b)) images
              in case images of
                   [] \<Rightarrow> (Inl (PanicIndexOutOfRange 0 0), w1)
                 | first # _ \<Rightarrow> (Inr (ami_ID first), w1)))"

definition reservationToPrivionedHost_part000 :: "Reservation \<Rightarrow> error + ProvisionedHost" where
  "reservationToPrivionedHost_part000 reservation =
     (case Instances reservation of
        [] \<Rightarrow> Inl (PanicIndexOutOfRange 0 0)
      | inst # _ \<Rightarrow>
          (let ip = (case PublicIpAddress inst of None \<Rightarrow> [] | Some a \<Rightarrow> a);
               state = StateName inst;
               state = (if state = ''running'' then ActiveStatus else state)
           in Inr \<lparr>ID = InstanceId inst, IP = ip, HostStatus = state\<rparr>))"

subsection \<open>A library and a backend for concrete runs\<close>

text \<open>
  To run the methods on concrete inputs the library parameter needs an instance. The
  parser of the instance reads the date-times written exactly as RFC 3339 writes them,
  \<open>YYYY-MM-DDTHH:MM:SS[.fraction](Z|+HH:MM|-HH:MM)\<close> with a valid calendar date, and rejects
  every other string. \<open>time.Parse\<close> reads each of these as the same instant; it also reads
  some looser spellings, which is why the instance stands for the library only on the
  strings of the runs below. The algorithm of the instance is insertion sort.
\<close>

definition leap_year :: "nat \<Rightarrow> bool" where
  "leap_year y = (y mod 4 = 0 \<and> (y mod 100 \<noteq> 0 \<or> y mod 400 = 0))"

definition days_in :: "nat \<Rightarrow> nat \<Rightarrow> nat" where
  "days_in y m =
     (if m = 2 then (if leap_year y then 29 else 28)
      else if m = 4 \<or> m = 6 \<or> m = 9 \<or> m = 11 then 30 else 31)"

definition days_from_civil :: "nat \<Rightarrow> nat \<Rightarrow> nat \<Rightarrow> int" where
  "days_from_civil y m d =
     (let y' = (if m \<le> 2 then int y - 1 else int y);
          era = y' div 400;
          yoe = y' - era * 400;
          mp = (if m > 2 then int m - 3 else int m + 9);
          doy = (153 * mp + 2) div 5 + int d - 1;
          doe = yoe * 365 + yoe div 4 - yoe div 100 + doy
      in era * 146097 + doe - 719468)"

definition num_at :: "nat \<Rightarrow> nat \<Rightarrow> string \<Rightarrow> nat option" where
  "num_at i n s = (if length s < i + n then None else atoi 0 (take n (drop i s)))"

definition char_at :: "nat \<Rightarrow> char \<Rightarrow> string \<Rightarrow> bool" where
  "char_at i c s = (i < length s \<and> s ! i = c)"

definition parse_zone :: "string \<Rightarrow> int option" where
  "parse_zone z =
     (if z = ''Z'' then Some 0
      else if length z = 6 \<and> (char_at 0 (CHR ''+'') z \<or> char_at 0 (CHR ''-'') z) \<and> char_at 3 (CHR '':'') z then
        (case (num_at 1 2 z, num_at 4 2 z) of
           (Some hh, Some mm) \<Rightarrow>
             if hh < 24 \<and> mm < 60
             then Some ((if char_at 0 (CHR ''-'') z then -1 else 1) * (int hh * 3600 + int mm * 60))
             else None
         | _ \<Rightarrow> None)
      else None)"

definition parse_fraction :: "string \<Rightarrow> (int \<times> string) option" where
  "parse_fraction r =
     (if char_at 0 (CHR ''.'') r then
        (let ds = takeWhile (\<lambda>c. digit c \<noteq> None) (tl r);
             ds9 = take 9 ds
         in if ds = [] then None
            else (case atoi 0 ds9 of
                    None \<Rightarrow> None
                  | Some n \<Rightarrow> Some (int n * 10 ^ (9 - length ds9), drop (length ds) (tl r))))
      else Some (0, r))"

definition strict_rfc3339 :: "string \<Rightarrow> time option" where
  "strict_rfc3339 s =
     (if \<not> (char_at 4 (CHR ''-'') s \<and> char_at 7 (CHR ''-'') s \<and> char_at 10 (CHR ''T'') s
             \<and> char_at 13 (CHR '':'') s \<and> char_at 16 (CHR '':'') s) then None
      else
        (case (num_at 0 4 s, num_at 5 2 s, num_at 8 2 s, num_at 11 2 s, num_at 14 2 s, num_at 17 2 s) of
           (Some y, Some m, Some d, Some h, Some mi, Some sec) \<Rightarrow>
             if \<not> (1 \<le> m \<and> m \<le> 12 \<and> 1 \<le> d \<and> d \<le> days_in y m \<and> h < 24 \<and> mi < 60 \<and> sec < 60)
             then None
             else
               (case parse_fraction (drop 19 s) of
                  None \<Rightarrow> None
                | Some (nanos, z) \<Rightarrow>
                    (case parse_zone z of
                       None \<Rightarrow> None
                     | Some off \<Rightarrow>
                         Some ((days_from_civil y m d * 86400 + int h * 3600 + int mi * 60
                                  + int sec - off) * 1000000000 + nanos)))
         | _ \<Rightarrow> None))"

definition lib0 :: GoLib where
  "lib0 = \<lparr>time_Parse = strict_rfc3339,
            Slice_algorithm = (\<lambda>lessf xs. insertionSort lessf [] xs)\<rparr>"

text \<open>
  A small backend on which the methods can be run: its state is the list of networks that
  exist; it answers the image query with \<open>imgs\<close> and the instance query with \<open>rsvs\<close>, creates a
  default network on request and accepts every other call.
\<close>

definition default_vpc :: Vpc where
  "default_vpc = \<lparr>IsDefault = True, VpcId = ''vpc-default''\<rparr>"

definition new_instance :: Instance where
  "new_instance = \<lparr>InstanceId = ''i-0001'', PublicIpAddress = None, StateName = ''pending''\<rparr>"

definition test_backend :: "Image list \<Rightarrow> Reservation list \<Rightarrow> (Vpc list) EC2" where
  "test_backend imgs rsvs =
     \<lparr>DescribeImages = (\<lambda>input s. (Inr imgs, s)),
      DescribeVpcs = (\<lambda>s. (Inr s, s)),
      CreateDefaultVpc = (\<lambda>s. (Inr default_vpc, s @ [default_vpc])),
      CreateSecurityGroup = (\<lambda>input s. (Inr ''sg-1'', s)),
      AuthorizeSecurityGroupIngress = (\<lambda>input s. (None, s)),
      RunInstances = (\<lambda>input s. (Inr \<lparr>Instances = [new_instance]\<rparr>, s)),
      DescribeInstances = (\<lambda>input s. (Inr rsvs, s)),
      TerminateInstances = (\<lambda>input s. (None, s))\<rparr>"

definition world0 :: "Vpc list \<Rightarrow> (Vpc list) world" where
  "world0 vpcs = \<lparr>backend = vpcs, calls = []\<rparr>"

definition img1 :: Image where
  "img1 = \<lparr>ImageId = ''img-1'', CreationDate = ''2023-01-01T00:00:00Z''\<rparr>"

definition img2 :: Image where
  "img2 = \<lparr>ImageId = ''img-2'', CreationDate = ''2023-03-01T00:00:00Z''\<rparr>"

definition img3 :: Image where
  "img3 = \<lparr>ImageId = ''img-3'', CreationDate = ''not-a-date''\<rparr>"

definition img4 :: Image where
  "img4 = \<lparr>ImageId = ''img-4'', CreationDate = ''2023-03-01T01:00:00+01:00''\<rparr>"

definition host0 :: "(string \<rightharpoonup> string) \<Rightarrow> BasicHost" where
  "host0 extra = \<lparr>Name = ''exit-node'', OS = ''ubuntu'', Plan = ''t3.nano'',
                  UserData = ''hello'', Additional = extra\<rparr>"

section \<open>Properties\<close>

subsection \<open>The library functions\<close>

lemma mset_insert_left: "mset (insert_left lessf x ys) = add_mset x (mset ys)"
  by (induction ys) auto

lemma mset_insertionSort: "mset (insertionSort lessf pre xs) = mset pre + mset xs"
  by (induction xs arbitrary: pre) (auto simp: mset_insert_left)

lemma set_insert_left: "set (insert_left lessf x ys) = insert x (set ys)"
  by (induction ys) auto

text \<open>
  For a comparison by a key, "later key first", the reversed prefix stays in ascending
  key order, so insertion sort leaves the slice in descending key order.
\<close>

lemma sorted_insert_left:
  fixes k :: "'a \<Rightarrow> 'b::linorder"
  assumes "sorted_wrt (\<lambda>a b. k a \<le> k b) ys"
  shows "sorted_wrt (\<lambda>a b. k a \<le> k b) (insert_left (\<lambda>a b. k b < k a) x ys)"
  using assms
proof (induction ys)
  case Nil
  then show ?case by simp
next
  case (Cons y ys)
  show ?case
  proof (cases "k y < k x")
    case True
    with Cons show ?thesis
      by (auto simp: set_insert_left)
  next
    case False
    with Cons show ?thesis
      by auto
  qed
qed

lemma sorted_insertionSort:
  fixes k :: "'a \<Rightarrow> 'b::linorder"
  assumes "sorted_wrt (\<lambda>a b. k a \<le> k b) pre"
  shows "sorted_wrt (\<lambda>a b. k b \<le> k a) (insertionSort (\<lambda>a b. k b < k a) pre xs)"
  using assms
proof (induction xs arbitrary: pre)
  case Nil
  then show ?case
    by (simp add: sorted_wrt_rev)
next
  case (Cons x xs)
  then show ?case
    by (simp add: sorted_insert_left)
qed

text \<open>
  Whatever the algorithm, \<open>sort_Slice\<close> returns a reordering of its input, in descending
  key order when the comparison is "later key first"; and an algorithm that keeps the
  library's guarantee is returned as it is.
\<close>

lemma mset_sort_Slice: "mset (sort_Slice algorithm lessf xs) = mset xs"
  by (simp add: sort_Slice_def Let_def mset_insertionSort)

lemma sort_Slice_of_sorting_algorithm:
  assumes "mset (algorithm lessf xs) = mset xs" and "ordered_by lessf (algorithm lessf xs)"
  shows "sort_Slice algorithm lessf xs = algorithm lessf xs"
  using assms by (simp add: sort_Slice_def)

lemma sorted_sort_Slice:
  fixes k :: "'a \<Rightarrow> 'b::linorder"
  shows "sorted_wrt (\<lambda>a b. k b \<le> k a) (sort_Slice algorithm (\<lambda>a b. k b < k a) xs)"
proof -
  have "ordered_by (\<lambda>a b. k b < k a) ys = sorted_wrt (\<lambda>a b. k b \<le> k a) ys" for ys
    by (simp add: ordered_by_def not_less)
  then show ?thesis
    by (simp add: sort_Slice_def Let_def sorted_insertionSort)
qed

lemma sort_Slice_first:
  fixes k :: "'a \<Rightarrow> 'b::linorder"
  assumes "xs \<noteq> []"
  shows "\<exists>x rest. sort_Slice algorithm (\<lambda>a b. k b < k a) xs = x # rest
           \<and> x \<in> set xs \<and> (\<forall>y \<in> set xs. k y \<le> k x)"
proof -
  let ?r = "sort_Slice algorithm (\<lambda>a b. k b < k a) xs"
  have "mset ?r = mset xs"
    by (rule mset_sort_Slice)
  then have s: "set ?r = set xs"
    by (rule mset_eq_setD)
  with assms have "?r \<noteq> []"
    by auto
  then obtain x rest where r: "?r = x # rest"
    by (cases ?r) auto
  have "sorted_wrt (\<lambda>a b. k b \<le> k a) (x # rest)"
    using sorted_sort_Slice [of k algorithm xs] r by simp
  then have later: "\<forall>y \<in> set rest. k y \<le> k x"
    by simp
  have members: "set xs = insert x (set rest)"
    using s r by simp
  have "\<forall>y \<in> set xs. k y \<le> k x"
  proof
    fix y
    assume "y \<in> set xs"
    then have "y = x \<or> y \<in> set rest"
      using members by simp
    then show "k y \<le> k x"
      using later by auto
  qed
  moreover have "x \<in> set xs"
    using members by simp
  ultimately show ?thesis
    using r by blast
qed

lemma sort_Slice_Nil: "sort_Slice algorithm lessf [] = []"
  using mset_sort_Slice [of algorithm lessf "[]"] by simp

lemma sort_Slice_lib0: "sort_Slice (Slice_algorithm lib0) lessf xs = insertionSort lessf [] xs"
  by (simp add: sort_Slice_def lib0_def)

lemma strict_img1: "strict_rfc3339 (CreationDate img1) = Some 1672531200000000000"
  unfolding img1_def by code_simp

lemma strict_img2: "strict_rfc3339 (CreationDate img2) = Some 1677628800000000000"
  unfolding img2_def by code_simp

lemma strict_img3: "strict_rfc3339 (CreationDate img3) = None"
  unfolding img3_def by code_simp

lemma strict_img4: "strict_rfc3339 (CreationDate img4) = Some 1677628800000000000"
  unfolding img4_def by code_simp

lemma latest_first_key: "latest_first = (\<lambda>a b. ami_CreationDate b < ami_CreationDate a)"
  by (simp add: latest_first_def After_def fun_eq_iff)

subsection \<open>The two copies of the file agree\<close>

lemma parse_images_part000_eq: "parse_images_part000 lib images imgs = parse_images lib images imgs"
  by (induction imgs arbitrary: images) (auto split: option.splits)

lemma latest_first_After:
  "latest_first = (\<lambda>a b. After (ami_CreationDate a) (ami_CreationDate b))"
  by (simp add: latest_first_def fun_eq_iff)

text \<open>
  Claim C10. The image resolution and the reservation-to-host normalization of the second
  copy (\<open>part_000\<close>) are the same functions as those of aws.go: with every library, on
  every client, selector and world the two \<open>findAMI\<close> give the same identifier, error or
  panic and leave the same world,
  and on every reservation the two \<open>reservationToPrivionedHost\<close> give the same host or panic.
\<close>

theorem part000_agrees_with_aws_go:
  "(findAMI_part000 :: GoLib \<Rightarrow> 's EC2 \<Rightarrow> string \<Rightarrow> 's world \<Rightarrow> (error + string) \<times> 's world) = findAMI
   \<and> reservationToPrivionedHost_part000 = reservationToPrivionedHost"
proof
  show "(findAMI_part000 :: GoLib \<Rightarrow> 's EC2 \<Rightarrow> string \<Rightarrow> 's world \<Rightarrow> (error + string) \<times> 's world) = findAMI"
    by (simp add: fun_eq_iff findAMI_part000_def findAMI_def findAMI_input_def
        parse_images_part000_eq latest_first_After Let_def split: prod.splits sum.splits)
  show "reservationToPrivionedHost_part000 = reservationToPrivionedHost"
    by (simp add: fun_eq_iff reservationToPrivionedHost_part000_def reservationToPrivionedHost_def)
qed

subsection \<open>Status normalization\<close>

text \<open>
  Claim C7. The normalization of the provider's state string inside
  \<open>reservationToPrivionedHost\<close> (lines 244-247) is total and pure: whatever the first
  instance of the reservation reports, the host is returned, its status is \<open>ActiveStatus\<close>
  when the state is "running" and the state string itself, unchanged, in every other case
  ("terminated" and unknown strings included).
\<close>

theorem status_normalization:
  "reservationToPrivionedHost \<lparr>Instances = inst # others\<rparr> =
     Inr \<lparr>ID = InstanceId inst,
          IP = (case PublicIpAddress inst of None \<Rightarrow> [] | Some a \<Rightarrow> a),
          HostStatus = (if StateName inst = ''running'' then ActiveStatus else StateName inst)\<rparr>"
  by (simp add: reservationToPrivionedHost_def)

subsection \<open>Image resolution\<close>

lemma parse_images_all_parse:
  assumes "\<forall>img \<in> set imgs. time_Parse lib (CreationDate img) \<noteq> None"
  shows "parse_images lib images imgs =
           images @ map (\<lambda>img. \<lparr>ami_ID = ImageId img,
                                 ami_CreationDate = the (time_Parse lib (CreationDate img))\<rparr>) imgs"
  using assms by (induction imgs arbitrary: images) auto

lemma findAMI_unfold:
  assumes "DescribeImages p (findAMI_input name) (backend w) = (Inr listing, s')"
  shows "findAMI lib p name w =
           (case sort_Slice (Slice_algorithm lib) latest_first (parse_images lib [] listing) of
              [] \<Rightarrow> Inl (PanicIndexOutOfRange 0 0)
            | first # _ \<Rightarrow> Inr (ami_ID first),
            \<lparr>backend = s', calls = calls w @ [DescribeImagesCall (findAMI_input name)]\<rparr>)"
  using assms by (simp add: findAMI_def invoke_def Let_def split: list.splits)

text \<open>
  Claim C1. Whenever the backend answers the image query of \<open>findAMI\<close> (name equal to the
  selector, public, \<open>x86_64\<close>, state "available") with a non-empty listing in which
  \<open>time.Parse\<close> accepts every creation date, \<open>findAMI\<close> returns the identifier of a listed
  image whose creation instant is maximal in the listing; with several images at the
  maximum it still returns one of them. The only call issued is that query. This holds for
  every parser and every sorting algorithm the library may have.
\<close>

theorem findAMI_returns_latest:
  assumes "DescribeImages p
             \<lparr>Filters =
                [\<lparr>FilterName = ''name'', FilterValues = [name]\<rparr>,
                 \<lparr>FilterName = ''is-public'', FilterValues = [''true'']\<rparr>,
                 \<lparr>FilterName = ''architecture'', FilterValues = [''x86_64'']\<rparr>,
                 \<lparr>FilterName = ''state'', FilterValues = [''available'']\<rparr>]\<rparr>
             (backend w) = (Inr listing, s')"
    and "listing \<noteq> []"
    and "\<forall>img \<in> set listing. time_Parse lib (CreationDate img) \<noteq> None"
  shows "\<exists>best \<in> set listing. \<exists>t.
           findAMI lib p name w =
             (Inr (ImageId best),
              \<lparr>backend = s',
               calls = calls w @
                 [DescribeImagesCall
                    \<lparr>Filters =
                       [\<lparr>FilterName = ''name'', FilterValues = [name]\<rparr>,
                        \<lparr>FilterName = ''is-public'', FilterValues = [''true'']\<rparr>,
                        \<lparr>FilterName = ''architecture'', FilterValues = [''x86_64'']\<rparr>,
                        \<lparr>FilterName = ''state'', FilterValues = [''available'']\<rparr>]\<rparr>]\<rparr>)
           \<and> time_Parse lib (CreationDate best) = Some t
           \<and> (\<forall>img \<in> set listing. \<forall>u. time_Parse lib (CreationDate img) = Some u \<longrightarrow> u \<le> t)"
proof -
  let ?to_ami = "\<lambda>img. \<lparr>ami_ID = ImageId img,
                          ami_CreationDate = the (time_Parse lib (CreationDate img))\<rparr>"
  have query: "DescribeImages p (findAMI_input name) (backend w) = (Inr listing, s')"
    using assms(1) by (simp add: findAMI_input_def)
  have images: "parse_images lib [] listing = map ?to_ami listing"
    using assms(3) by (simp add: parse_images_all_parse)
  with assms(2) have "parse_images lib [] listing \<noteq> []"
    by simp
  then obtain x rest where sorted:
      "sort_Slice (Slice_algorithm lib) latest_first (parse_images lib [] listing) = x # rest"
    and x_in: "x \<in> set (parse_images lib [] listing)"
    and x_max: "\<forall>y \<in> set (parse_images lib [] listing). ami_CreationDate y \<le> ami_CreationDate x"
    using sort_Slice_first [where xs = "parse_images lib [] listing" and k = ami_CreationDate
        and algorithm = "Slice_algorithm lib"]
    by (auto simp: latest_first_key)
  from x_in images obtain best where best: "best \<in> set listing" and x: "x = ?to_ami best"
    by auto
  from assms(3) best obtain t where t: "time_Parse lib (CreationDate best) = Some t"
    by auto
  have result: "findAMI lib p name w =
      (Inr (ImageId best),
       \<lparr>backend = s',
        calls = calls w @
          [DescribeImagesCall
             \<lparr>Filters =
                [\<lparr>FilterName = ''name'', FilterValues = [name]\<rparr>,
                 \<lparr>FilterName = ''is-public'', FilterValues = [''true'']\<rparr>,
                 \<lparr>FilterName = ''architecture'', FilterValues = [''x86_64'']\<rparr>,
                 \<lparr>FilterName = ''state'', FilterValues = [''available'']\<rparr>]\<rparr>]\<rparr>)"
    using findAMI_unfold [OF query] sorted x by (simp add: findAMI_input_def)
  have "\<forall>img \<in> set listing. \<forall>u. time_Parse lib (CreationDate img) = Some u \<longrightarrow> u \<le> t"
  proof (intro ballI allI impI)
    fix img u
    assume img: "img \<in> set listing" and u: "time_Parse lib (CreationDate img) = Some u"
    from img images have "?to_ami img \<in> set (parse_images lib [] listing)"
      by simp
    with x_max have "ami_CreationDate (?to_ami img) \<le> ami_CreationDate x"
      by blast
    with x t u show "u \<le> t"
      by simp
  qed
  with best t result show ?thesis
    by blast
qed

lemma parse_img1: "time_Parse lib0 (CreationDate img1) = Some 1672531200000000000"
  by (simp add: lib0_def strict_img1)

lemma parse_img2: "time_Parse lib0 (CreationDate img2) = Some 1677628800000000000"
  by (simp add: lib0_def strict_img2)

lemma parse_img3: "time_Parse lib0 (CreationDate img3) = None"
  by (simp add: lib0_def strict_img3)

lemma parse_img4: "time_Parse lib0 (CreationDate img4) = Some 1677628800000000000"
  by (simp add: lib0_def strict_img4)

lemma test_backend_simps:
  "DescribeImages (test_backend imgs rsvs) input s = (Inr imgs, s)"
  "DescribeVpcs (test_backend imgs rsvs) s = (Inr s, s)"
  "CreateDefaultVpc (test_backend imgs rsvs) s = (Inr default_vpc, s @ [default_vpc])"
  "CreateSecurityGroup (test_backend imgs rsvs) ginput s = (Inr ''sg-1'', s)"
  "AuthorizeSecurityGroupIngress (test_backend imgs rsvs) ainput s = (None, s)"
  "RunInstances (test_backend imgs rsvs) rinput s = (Inr \<lparr>Instances = [new_instance]\<rparr>, s)"
  "DescribeInstances (test_backend imgs rsvs) dinput s = (Inr rsvs, s)"
  "TerminateInstances (test_backend imgs rsvs) tinput s = (None, s)"
  by (simp_all add: test_backend_def)

text \<open>
  The theorem at a listing of three images, two of them created at the same latest instant
  (\<open>img2\<close> and \<open>img4\<close>, the second written in another time zone): an image is returned and
  its instant is that maximum.
\<close>

theorem findAMI_returns_latest_witness:
  "\<exists>best \<in> set [img1, img2, img4]. \<exists>t.
     findAMI lib0 (test_backend [img1, img2, img4] []) ''ubuntu'' (world0 []) =
       (Inr (ImageId best),
        \<lparr>backend = [],
         calls =
           [DescribeImagesCall
              \<lparr>Filters =
                 [\<lparr>FilterName = ''name'', FilterValues = [''ubuntu'']\<rparr>,
                  \<lparr>FilterName = ''is-public'', FilterValues = [''true'']\<rparr>,
                  \<lparr>FilterName = ''architecture'', FilterValues = [''x86_64'']\<rparr>,
                  \<lparr>FilterName = ''state'', FilterValues = [''available'']\<rparr>]\<rparr>]\<rparr>)
     \<and> time_Parse lib0 (CreationDate best) = Some t
     \<and> t = 1677628800000000000"
proof -
  have q: "DescribeImages (test_backend [img1, img2, img4] [])
             \<lparr>Filters =
                [\<lparr>FilterName = ''name'', FilterValues = [''ubuntu'']\<rparr>,
                 \<lparr>FilterName = ''is-public'', FilterValues = [''true'']\<rparr>,
                 \<lparr>FilterName = ''architecture'', FilterValues = [''x86_64'']\<rparr>,
                 \<lparr>FilterName = ''state'', FilterValues = [''available'']\<rparr>]\<rparr>
             (backend (world0 [])) = (Inr [img1, img2, img4], [])"
    by (simp add: test_backend_simps world0_def)
  have ne: "[img1, img2, img4] \<noteq> []"
    by simp
  have ok: "\<forall>img \<in> set [img1, img2, img4]. time_Parse lib0 (CreationDate img) \<noteq> None"
    by (simp add: parse_img1 parse_img2 parse_img4)
  from findAMI_returns_latest [OF q ne ok]
  obtain best t where b: "best \<in> set [img1, img2, img4]"
    and r: "findAMI lib0 (test_backend [img1, img2, img4] []) ''ubuntu'' (world0 []) =
       (Inr (ImageId best),
        \<lparr>backend = [],
         calls = calls (world0 []) @
           [DescribeImagesCall
              \<lparr>Filters =
                 [\<lparr>FilterName = ''name'', FilterValues = [''ubuntu'']\<rparr>,
                  \<lparr>FilterName = ''is-public'', FilterValues = [''true'']\<rparr>,
                  \<lparr>FilterName = ''architecture'', FilterValues = [''x86_64'']\<rparr>,
                  \<lparr>FilterName = ''state'', FilterValues = [''available'']\<rparr>]\<rparr>]\<rparr>)"
    and t: "time_Parse lib0 (CreationDate best) = Some t"
    and m: "\<forall>img \<in> set [img1, img2, img4]. \<forall>u. time_Parse lib0 (CreationDate img) = Some u \<longrightarrow> u \<le> t"
    by blast
  from m have "1677628800000000000 \<le> t"
    by (simp add: parse_img2)
  moreover from b t have "t \<le> 1677628800000000000"
    by (auto simp: parse_img1 parse_img2 parse_img4)
  ultimately have "t = 1677628800000000000"
    by simp
  with b r t show ?thesis
    by (auto simp: world0_def)
qed

lemma image_ids:
  "ImageId img1 = ''img-1''" "ImageId img2 = ''img-2''"
  "ImageId img3 = ''img-3''" "ImageId img4 = ''img-4''"
  by (simp_all add: img1_def img2_def img3_def img4_def)

text \<open>
  Claim C2 (the code does otherwise). When the backend answers the image query with an
  empty listing, \<open>findAMI\<close> does not return an error: the slice of parsed images is empty,
  the sort leaves it empty, and \<open>images[0]\<close> on line 172 panics with an index out of range.
\<close>

theorem findAMI_empty_listing_panics:
  assumes "DescribeImages p (findAMI_input name) (backend w) = (Inr [], s')"
  shows "findAMI lib p name w =
           (Inl (PanicIndexOutOfRange 0 0),
            \<lparr>backend = s', calls = calls w @ [DescribeImagesCall (findAMI_input name)]\<rparr>)"
  using findAMI_unfold [OF assms] by (simp add: sort_Slice_Nil)

theorem findAMI_empty_listing_panics_witness:
  "findAMI lib0 (test_backend [] []) ''ubuntu'' (world0 []) =
     (Inl (PanicIndexOutOfRange 0 0),
      \<lparr>backend = [], calls = [DescribeImagesCall (findAMI_input ''ubuntu'')]\<rparr>)"
  using findAMI_empty_listing_panics
      [where lib = lib0 and p = "test_backend [] []" and name = "''ubuntu''" and w = "world0 []"
         and s' = "[]"]
  by (simp add: test_backend_simps world0_def)

text \<open>
  Claim C3 (the code does otherwise). A creation date that \<open>time.Parse\<close> rejects is not
  skipped: the loop stops there (\<open>break\<close>, line 159) and only the images before it are
  considered. When the first image of the listing is the rejected one, nothing is left and
  \<open>findAMI\<close> panics, whatever parseable images follow; when it comes later, the images
  after it are ignored, also a newer one (second run below).
\<close>

theorem findAMI_stops_at_unparsable:
  assumes "DescribeImages p
             \<lparr>Filters =
                [\<lparr>FilterName = ''name'', FilterValues = [name]\<rparr>,
                 \<lparr>FilterName = ''is-public'', FilterValues = [''true'']\<rparr>,
                 \<lparr>FilterName = ''architecture'', FilterValues = [''x86_64'']\<rparr>,
                 \<lparr>FilterName = ''state'', FilterValues = [''available'']\<rparr>]\<rparr>
             (backend w) = (Inr (bad # rest), s')"
    and "time_Parse lib (CreationDate bad) = None"
  shows "findAMI lib p name w =
           (Inl (PanicIndexOutOfRange 0 0),
            \<lparr>backend = s',
             calls = calls w @
               [DescribeImagesCall
                  \<lparr>Filters =
                     [\<lparr>FilterName = ''name'', FilterValues = [name]\<rparr>,
                      \<lparr>FilterName = ''is-public'', FilterValues = [''true'']\<rparr>,
                      \<lparr>FilterName = ''architecture'', FilterValues = [''x86_64'']\<rparr>,
                      \<lparr>FilterName = ''state'', FilterValues = [''available'']\<rparr>]\<rparr>]\<rparr>)"
proof -
  have "DescribeImages p (findAMI_input name) (backend w) = (Inr (bad # rest), s')"
    using assms(1) by (simp add: findAMI_input_def)
  from findAMI_unfold [OF this] assms(2) show ?thesis
    by (simp add: sort_Slice_Nil findAMI_input_def)
qed

theorem findAMI_stops_at_unparsable_witness:
  "findAMI lib0 (test_backend [img3, img1] []) ''ubuntu'' (world0 []) =
     (Inl (PanicIndexOutOfRange 0 0),
      \<lparr>backend = [], calls = [DescribeImagesCall (findAMI_input ''ubuntu'')]\<rparr>)
   \<and> findAMI lib0 (test_backend [img1, img3, img2] []) ''ubuntu'' (world0 []) =
     (Inr ''img-1'',
      \<lparr>backend = [], calls = [DescribeImagesCall (findAMI_input ''ubuntu'')]\<rparr>)"
proof
  have q: "DescribeImages (test_backend [img3, img1] [])
             \<lparr>Filters =
                [\<lparr>FilterName = ''name'', FilterValues = [''ubuntu'']\<rparr>,
                 \<lparr>FilterName = ''is-public'', FilterValues = [''true'']\<rparr>,
                 \<lparr>FilterName = ''architecture'', FilterValues = [''x86_64'']\<rparr>,
                 \<lparr>FilterName = ''state'', FilterValues = [''available'']\<rparr>]\<rparr>
             (backend (world0 [])) = (Inr (img3 # [img1]), [])"
    by (simp add: test_backend_simps world0_def)
  show "findAMI lib0 (test_backend [img3, img1] []) ''ubuntu'' (world0 []) =
     (Inl (PanicIndexOutOfRange 0 0),
      \<lparr>backend = [], calls = [DescribeImagesCall (findAMI_input ''ubuntu'')]\<rparr>)"
    using findAMI_stops_at_unparsable [OF q parse_img3]
    by (simp add: world0_def findAMI_input_def)
next
  have q: "DescribeImages (test_backend [img1, img3, img2] []) (findAMI_input ''ubuntu'')
             (backend (world0 [])) = (Inr [img1, img3, img2], [])"
    by (simp add: test_backend_simps world0_def)
  show "findAMI lib0 (test_backend [img1, img3, img2] []) ''ubuntu'' (world0 []) =
     (Inr ''img-1'',
      \<lparr>backend = [], calls = [DescribeImagesCall (findAMI_input ''ubuntu'')]\<rparr>)"
    using findAMI_unfold [OF q]
    by (simp add: parse_img1 parse_img3 sort_Slice_lib0 world0_def image_ids)
qed

subsection \<open>Status\<close>

lemma Status_unfold:
  assumes "DescribeInstances p \<lparr>DescribeInstanceIds = [ident]\<rparr> (backend w) = (Inr reservations, s')"
  shows "Status p ident w =
           (case reservations of
              [] \<Rightarrow> Inl (PanicIndexOutOfRange 0 0)
            | result # _ \<Rightarrow> reservationToPrivionedHost result,
            \<lparr>backend = s',
             calls = calls w @ [DescribeInstancesCall \<lparr>DescribeInstanceIds = [ident]\<rparr>]\<rparr>)"
  using assms by (simp add: Status_def invoke_def Let_def split: list.splits)

text \<open>
  Claim C4 (the code does otherwise). When the describe call succeeds with no reservation,
  \<open>Status\<close> reads \<open>describeResult.Reservations[0]\<close> (line 114) and panics; when the first
  reservation holds no instance, \<open>reservationToPrivionedHost\<close> reads
  \<open>reservation.Instances[0]\<close> (line 237) and panics. In neither case is an error returned.
\<close>

theorem Status_no_result_panics:
  assumes "DescribeInstances p \<lparr>DescribeInstanceIds = [ident]\<rparr> (backend w) = (Inr reservations, s')"
    and "reservations = [] \<or> (\<exists>others. reservations = \<lparr>Instances = []\<rparr> # others)"
  shows "Status p ident w =
           (Inl (PanicIndexOutOfRange 0 0),
            \<lparr>backend = s',
             calls = calls w @ [DescribeInstancesCall \<lparr>DescribeInstanceIds = [ident]\<rparr>]\<rparr>)"
  using Status_unfold [OF assms(1)] assms(2)
  by (auto simp: reservationToPrivionedHost_def)

theorem Status_no_result_panics_witness:
  "Status (test_backend [] []) ''i-0000'' (world0 []) =
     (Inl (PanicIndexOutOfRange 0 0),
      \<lparr>backend = [], calls = [DescribeInstancesCall \<lparr>DescribeInstanceIds = [''i-0000'']\<rparr>]\<rparr>)
   \<and> Status (test_backend [] [\<lparr>Instances = []\<rparr>]) ''i-0000'' (world0 []) =
     (Inl (PanicIndexOutOfRange 0 0),
      \<lparr>backend = [], calls = [DescribeInstancesCall \<lparr>DescribeInstanceIds = [''i-0000'']\<rparr>]\<rparr>)"
  using Status_no_result_panics
      [of "test_backend [] []" "''i-0000''" "world0 []" "[]" "[]"]
    Status_no_result_panics
      [of "test_backend [] [\<lparr>Instances = []\<rparr>]" "''i-0000''" "world0 []" "[\<lparr>Instances = []\<rparr>]" "[]"]
  by (simp add: test_backend_simps world0_def)

subsection \<open>The network prerequisites\<close>

lemma createSecurityGroup_unfold:
  assumes "CreateSecurityGroup p
             \<lparr>Description = ''Inlets security group'', GroupName = ''inlets-sg-'' @ hostname,
              GroupVpcId = vpcID\<rparr> (backend w) = (Inr groupId, s1)"
    and "AuthorizeSecurityGroupIngress p
           \<lparr>GroupId = groupId,
            IpPermissions = [tcp_rule 80, tcp_rule 443, tcp_rule inletsPort]\<rparr> s1 = (err, s2)"
  shows "createSecurityGroup p vpcID hostname inletsPort w =
           ((groupId, err),
            \<lparr>backend = s2,
             calls = calls w @
               [CreateSecurityGroupCall
                  \<lparr>Description = ''Inlets security group'', GroupName = ''inlets-sg-'' @ hostname,
                   GroupVpcId = vpcID\<rparr>,
                AuthorizeSecurityGroupIngressCall
                  \<lparr>GroupId = groupId,
                   IpPermissions = [tcp_rule 80, tcp_rule 443, tcp_rule inletsPort]\<rparr>]\<rparr>)"
  using assms by (simp add: createSecurityGroup_def invoke_def Let_def)

lemma createSecurityGroup_create_fails:
  assumes "CreateSecurityGroup p
             \<lparr>Description = ''Inlets security group'', GroupName = ''inlets-sg-'' @ hostname,
              GroupVpcId = vpcID\<rparr> (backend w) = (Inl e, s1)"
  shows "createSecurityGroup p vpcID hostname inletsPort w =
           (([], Some e),
            \<lparr>backend = s1,
             calls = calls w @
               [CreateSecurityGroupCall
                  \<lparr>Description = ''Inlets security group'', GroupName = ''inlets-sg-'' @ hostname,
                   GroupVpcId = vpcID\<rparr>]\<rparr>)"
  using assms by (simp add: createSecurityGroup_def invoke_def Let_def)

text \<open>
  Claim C5. When \<open>createSecurityGroup\<close> succeeds (it returns no error), the calls it has
  issued are the creation of the group and one authorization for that group with exactly
  three permissions, each TCP from 0.0.0.0/0: port 80, port 443 and the given tunnel port.
  Nothing else is authorized.
\<close>

theorem createSecurityGroup_authorizes_three_rules:
  assumes "createSecurityGroup p vpcID hostname inletsPort w = ((groupId, None), w')"
  shows "calls w' = calls w @
           [CreateSecurityGroupCall
              \<lparr>Description = ''Inlets security group'', GroupName = ''inlets-sg-'' @ hostname,
               GroupVpcId = vpcID\<rparr>,
            AuthorizeSecurityGroupIngressCall
              \<lparr>GroupId = groupId,
               IpPermissions =
                 [\<lparr>IpProtocol = ''tcp'', FromPort = 80, ToPort = 80,
                   IpRanges = [\<lparr>CidrIp = ''0.0.0.0/0''\<rparr>]\<rparr>,
                  \<lparr>IpProtocol = ''tcp'', FromPort = 443, ToPort = 443,
                   IpRanges = [\<lparr>CidrIp = ''0.0.0.0/0''\<rparr>]\<rparr>,
                  \<lparr>IpProtocol = ''tcp'', FromPort = inletsPort, ToPort = inletsPort,
                   IpRanges = [\<lparr>CidrIp = ''0.0.0.0/0''\<rparr>]\<rparr>]\<rparr>]"
proof -
  let ?groupInput = "\<lparr>Description = ''Inlets security group'', GroupName = ''inlets-sg-'' @ hostname,
                      GroupVpcId = vpcID\<rparr>"
  obtain created s1 where c: "CreateSecurityGroup p ?groupInput (backend w) = (created, s1)"
    by (cases "CreateSecurityGroup p ?groupInput (backend w)")
  show ?thesis
  proof (cases created)
    case (Inl e)
    with c assms show ?thesis
      by (simp add: createSecurityGroup_create_fails)
  next
    case (Inr gid)
    let ?ingressInput = "\<lparr>GroupId = gid,
                           IpPermissions = [tcp_rule 80, tcp_rule 443, tcp_rule inletsPort]\<rparr>"
    obtain err s2 where a: "AuthorizeSecurityGroupIngress p ?ingressInput s1 = (err, s2)"
      by (cases "AuthorizeSecurityGroupIngress p ?ingressInput s1")
    from c Inr have "CreateSecurityGroup p ?groupInput (backend w) = (Inr gid, s1)"
      by simp
    from createSecurityGroup_unfold [OF this a] assms show ?thesis
      by (auto simp: tcp_rule_def)
  qed
qed

theorem createSecurityGroup_authorizes_three_rules_witness:
  "fst (createSecurityGroup (test_backend [] []) ''vpc-1'' ''exit-node'' 8080 (world0 [])) =
     (''sg-1'', None)
   \<and> calls (snd (createSecurityGroup (test_backend [] []) ''vpc-1'' ''exit-node'' 8080 (world0 []))) =
     [CreateSecurityGroupCall
        \<lparr>Description = ''Inlets security group'', GroupName = ''inlets-sg-exit-node'',
         GroupVpcId = ''vpc-1''\<rparr>,
      AuthorizeSecurityGroupIngressCall
        \<lparr>GroupId = ''sg-1'',
         IpPermissions =
           [\<lparr>IpProtocol = ''tcp'', FromPort = 80, ToPort = 80,
             IpRanges = [\<lparr>CidrIp = ''0.0.0.0/0''\<rparr>]\<rparr>,
            \<lparr>IpProtocol = ''tcp'', FromPort = 443, ToPort = 443,
             IpRanges = [\<lparr>CidrIp = ''0.0.0.0/0''\<rparr>]\<rparr>,
            \<lparr>IpProtocol = ''tcp'', FromPort = 8080, ToPort = 8080,
             IpRanges = [\<lparr>CidrIp = ''0.0.0.0/0''\<rparr>]\<rparr>]\<rparr>]"
proof -
  let ?run = "createSecurityGroup (test_backend [] []) ''vpc-1'' ''exit-node'' 8080 (world0 [])"
  have ok: "fst ?run = (''sg-1'', None)"
    by (simp add: createSecurityGroup_def invoke_def test_backend_simps world0_def)
  then have "?run = ((''sg-1'', None), snd ?run)"
    by (simp add: prod_eq_iff)
  from createSecurityGroup_authorizes_three_rules [OF this]
  have "calls (snd ?run) = calls (world0 []) @
     [CreateSecurityGroupCall
        \<lparr>Description = ''Inlets security group'', GroupName = ''inlets-sg-'' @ ''exit-node'',
         GroupVpcId = ''vpc-1''\<rparr>,
      AuthorizeSecurityGroupIngressCall
        \<lparr>GroupId = ''sg-1'',
         IpPermissions =
           [\<lparr>IpProtocol = ''tcp'', FromPort = 80, ToPort = 80,
             IpRanges = [\<lparr>CidrIp = ''0.0.0.0/0''\<rparr>]\<rparr>,
            \<lparr>IpProtocol = ''tcp'', FromPort = 443, ToPort = 443,
             IpRanges = [\<lparr>CidrIp = ''0.0.0.0/0''\<rparr>]\<rparr>,
            \<lparr>IpProtocol = ''tcp'', FromPort = 8080, ToPort = 8080,
             IpRanges = [\<lparr>CidrIp = ''0.0.0.0/0''\<rparr>]\<rparr>]\<rparr>]" .
  then have "calls (snd ?run) =
     [CreateSecurityGroupCall
        \<lparr>Description = ''Inlets security group'', GroupName = ''inlets-sg-exit-node'',
         GroupVpcId = ''vpc-1''\<rparr>,
      AuthorizeSecurityGroupIngressCall
        \<lparr>GroupId = ''sg-1'',
         IpPermissions =
           [\<lparr>IpProtocol = ''tcp'', FromPort = 80, ToPort = 80,
             IpRanges = [\<lparr>CidrIp = ''0.0.0.0/0''\<rparr>]\<rparr>,
            \<lparr>IpProtocol = ''tcp'', FromPort = 443, ToPort = 443,
             IpRanges = [\<lparr>CidrIp = ''0.0.0.0/0''\<rparr>]\<rparr>,
            \<lparr>IpProtocol = ''tcp'', FromPort = 8080, ToPort = 8080,
             IpRanges = [\<lparr>CidrIp = ''0.0.0.0/0''\<rparr>]\<rparr>]\<rparr>]"
    by (simp add: world0_def)
  with ok show ?thesis
    by blast
qed

lemma first_default_Some:
  "(\<exists>v \<in> set vpcs. IsDefault v) \<Longrightarrow> \<exists>v \<in> set vpcs. IsDefault v \<and> first_default vpcs = Some (VpcId v)"
  by (induction vpcs) auto

lemma getOrCreateDefaultVPC_found:
  assumes "DescribeVpcs p (backend w) = (Inr vpcs, s1)"
    and "first_default vpcs = Some vpcID"
  shows "getOrCreateDefaultVPC p w =
           (Inr vpcID, \<lparr>backend = s1, calls = calls w @ [DescribeVpcsCall]\<rparr>)"
  using assms by (simp add: getOrCreateDefaultVPC_def invoke_def Let_def)

text \<open>
  Claim C6. When the network listing holds a network flagged default,
  \<open>getOrCreateDefaultVPC\<close> returns the identifier of a default network of the listing (the
  first one) and its only call is the listing itself: no network is created. So two calls
  in sequence, the backend listing the same networks both times, return the same identifier,
  and the call log grows by the two listings only.
\<close>

theorem getOrCreateDefaultVPC_idempotent:
  assumes "DescribeVpcs p (backend w) = (Inr vpcs, s1)"
    and "DescribeVpcs p s1 = (Inr vpcs, s2)"
    and "\<exists>v \<in> set vpcs. IsDefault v"
  shows "\<exists>v \<in> set vpcs. IsDefault v
           \<and> getOrCreateDefaultVPC p w =
               (Inr (VpcId v), \<lparr>backend = s1, calls = calls w @ [DescribeVpcsCall]\<rparr>)
           \<and> getOrCreateDefaultVPC p \<lparr>backend = s1, calls = calls w @ [DescribeVpcsCall]\<rparr> =
               (Inr (VpcId v),
                \<lparr>backend = s2, calls = calls w @ [DescribeVpcsCall, DescribeVpcsCall]\<rparr>)"
proof -
  from first_default_Some [OF assms(3)]
  obtain v where v: "v \<in> set vpcs" "IsDefault v" "first_default vpcs = Some (VpcId v)"
    by blast
  let ?w1 = "\<lparr>backend = s1, calls = calls w @ [DescribeVpcsCall]\<rparr>"
  have first: "getOrCreateDefaultVPC p w = (Inr (VpcId v), ?w1)"
    using getOrCreateDefaultVPC_found [OF assms(1) v(3)] .
  have "DescribeVpcs p (backend ?w1) = (Inr vpcs, s2)"
    using assms(2) by simp
  from getOrCreateDefaultVPC_found [OF this v(3)]
  have second: "getOrCreateDefaultVPC p ?w1 =
      (Inr (VpcId v), \<lparr>backend = s2, calls = calls w @ [DescribeVpcsCall, DescribeVpcsCall]\<rparr>)"
    by simp
  from v first second show ?thesis
    by blast
qed

theorem getOrCreateDefaultVPC_idempotent_witness:
  "getOrCreateDefaultVPC (test_backend [] []) (world0 [\<lparr>IsDefault = False, VpcId = ''vpc-a''\<rparr>, default_vpc]) =
     (Inr ''vpc-default'',
      \<lparr>backend = [\<lparr>IsDefault = False, VpcId = ''vpc-a''\<rparr>, default_vpc], calls = [DescribeVpcsCall]\<rparr>)
   \<and> getOrCreateDefaultVPC (test_backend [] [])
       \<lparr>backend = [\<lparr>IsDefault = False, VpcId = ''vpc-a''\<rparr>, default_vpc], calls = [DescribeVpcsCall]\<rparr> =
     (Inr ''vpc-default'',
      \<lparr>backend = [\<lparr>IsDefault = False, VpcId = ''vpc-a''\<rparr>, default_vpc],
       calls = [DescribeVpcsCall, DescribeVpcsCall]\<rparr>)"
proof -
  let ?vpcs = "[\<lparr>IsDefault = False, VpcId = ''vpc-a''\<rparr>, default_vpc]"
  have q1: "DescribeVpcs (test_backend [] []) (backend (world0 ?vpcs)) = (Inr ?vpcs, ?vpcs)"
    by (simp add: test_backend_simps world0_def)
  have q2: "DescribeVpcs (test_backend [] []) ?vpcs = (Inr ?vpcs, ?vpcs)"
    by (simp add: test_backend_simps)
  have d: "\<exists>v \<in> set ?vpcs. IsDefault v"
    by (simp add: default_vpc_def)
  from getOrCreateDefaultVPC_idempotent [OF q1 q2 d] show ?thesis
    by (auto simp: world0_def default_vpc_def)
qed

subsection \<open>The tunnel port\<close>

lemma ParseInt_70000: "ParseInt ''70000'' = Inr 70000"
  by (simp add: ParseInt_def ParseUint_def digit_def)

lemma ParseInt_empty: "ParseInt [] = Inl (NumError [] ErrSyntax)"
  by (simp add: ParseInt_def)

lemma ParseInt_word: "ParseInt ''http'' = Inl (NumError ''http'' ErrSyntax)"
  by (simp add: ParseInt_def ParseUint_def digit_def)

lemma encode_hello: "EncodeToString ''hello'' = ''aGVsbG8=''"
  by code_simp

lemma findAMI_test_backend_img1:
  "findAMI lib0 (test_backend [img1] rsvs) name \<lparr>backend = s, calls = cs\<rparr> =
     (Inr ''img-1'', \<lparr>backend = s, calls = cs @ [DescribeImagesCall (findAMI_input name)]\<rparr>)"
proof -
  have "DescribeImages (test_backend [img1] rsvs) (findAMI_input name)
          (backend \<lparr>backend = s, calls = cs\<rparr>) = (Inr [img1], s)"
    by (simp add: test_backend_simps)
  from findAMI_unfold [OF this] show ?thesis
    by (simp add: parse_img1 sort_Slice_lib0 image_ids)
qed

lemma getOrCreateDefaultVPC_test_backend_default:
  "getOrCreateDefaultVPC (test_backend imgs rsvs) \<lparr>backend = [default_vpc], calls = cs\<rparr> =
     (Inr ''vpc-default'', \<lparr>backend = [default_vpc], calls = cs @ [DescribeVpcsCall]\<rparr>)"
  by (simp add: getOrCreateDefaultVPC_def invoke_def test_backend_simps default_vpc_def)

lemma createSecurityGroup_test_backend:
  "createSecurityGroup (test_backend imgs rsvs) vpcID hostname port \<lparr>backend = s, calls = cs\<rparr> =
     ((''sg-1'', None),
      \<lparr>backend = s,
       calls = cs @
         [CreateSecurityGroupCall
            \<lparr>Description = ''Inlets security group'', GroupName = ''inlets-sg-'' @ hostname,
             GroupVpcId = vpcID\<rparr>,
          AuthorizeSecurityGroupIngressCall
            \<lparr>GroupId = ''sg-1'',
             IpPermissions = [tcp_rule 80, tcp_rule 443, tcp_rule port]\<rparr>]\<rparr>)"
  by (simp add: createSecurityGroup_def invoke_def test_backend_simps)

text \<open>
  Claim C8 fails on the code: neither \<open>createSecurityGroup\<close> nor \<open>Provision\<close> compares the
  tunnel port with any bound. With port 0, \<open>createSecurityGroup\<close> issues both backend calls
  and returns the group; with the extra parameter "70000", \<open>Provision\<close> runs to the end and
  returns the new host.
\<close>

theorem port_out_of_range_accepted:
  "createSecurityGroup (test_backend [] []) ''vpc-1'' ''exit-node'' 0 (world0 []) =
     ((''sg-1'', None),
      \<lparr>backend = [],
       calls =
         [CreateSecurityGroupCall
            \<lparr>Description = ''Inlets security group'', GroupName = ''inlets-sg-exit-node'',
             GroupVpcId = ''vpc-1''\<rparr>,
          AuthorizeSecurityGroupIngressCall
            \<lparr>GroupId = ''sg-1'',
             IpPermissions = [tcp_rule 80, tcp_rule 443, tcp_rule 0]\<rparr>]\<rparr>)
   \<and> Provision lib0 (test_backend [img1] []) (host0 [''inlets-port'' \<mapsto> ''70000''])
         (world0 [default_vpc]) =
       (Inr \<lparr>ID = ''i-0001'', IP = [], HostStatus = ''pending''\<rparr>,
        \<lparr>backend = [default_vpc],
         calls =
           [DescribeImagesCall (findAMI_input ''ubuntu''),
            DescribeVpcsCall,
            CreateSecurityGroupCall
              \<lparr>Description = ''Inlets security group'', GroupName = ''inlets-sg-exit-node'',
               GroupVpcId = ''vpc-default''\<rparr>,
            AuthorizeSecurityGroupIngressCall
              \<lparr>GroupId = ''sg-1'',
               IpPermissions = [tcp_rule 80, tcp_rule 443, tcp_rule 70000]\<rparr>,
            RunInstancesCall
              \<lparr>RunImageId = ''img-1'', InstanceType = ''t3.nano'', MinCount = 1, MaxCount = 1,
               RunUserData = ''aGVsbG8='', SecurityGroupIds = [''sg-1''],
               BlockDeviceMappings = [\<lparr>DeviceName = ''/dev/sdh'', Ebs = \<lparr>VolumeSize = 20\<rparr>\<rparr>],
               TagSpecifications =
                 [\<lparr>ResourceType = ''instance'',
                   Tags = [\<lparr>TagKey = ''name'', TagValue = ''exit-node''\<rparr>]\<rparr>]\<rparr>]\<rparr>)"
proof
  show "createSecurityGroup (test_backend [] []) ''vpc-1'' ''exit-node'' 0 (world0 []) =
     ((''sg-1'', None),
      \<lparr>backend = [],
       calls =
         [CreateSecurityGroupCall
            \<lparr>Description = ''Inlets security group'', GroupName = ''inlets-sg-exit-node'',
             GroupVpcId = ''vpc-1''\<rparr>,
          AuthorizeSecurityGroupIngressCall
            \<lparr>GroupId = ''sg-1'',
             IpPermissions = [tcp_rule 80, tcp_rule 443, tcp_rule 0]\<rparr>]\<rparr>)"
    by (simp add: createSecurityGroup_test_backend world0_def)
  show "Provision lib0 (test_backend [img1] []) (host0 [''inlets-port'' \<mapsto> ''70000''])
         (world0 [default_vpc]) =
       (Inr \<lparr>ID = ''i-0001'', IP = [], HostStatus = ''pending''\<rparr>,
        \<lparr>backend = [default_vpc],
         calls =
           [DescribeImagesCall (findAMI_input ''ubuntu''),
            DescribeVpcsCall,
            CreateSecurityGroupCall
              \<lparr>Description = ''Inlets security group'', GroupName = ''inlets-sg-exit-node'',
               GroupVpcId = ''vpc-default''\<rparr>,
            AuthorizeSecurityGroupIngressCall
              \<lparr>GroupId = ''sg-1'',
               IpPermissions = [tcp_rule 80, tcp_rule 443, tcp_rule 70000]\<rparr>,
            RunInstancesCall
              \<lparr>RunImageId = ''img-1'', InstanceType = ''t3.nano'', MinCount = 1, MaxCount = 1,
               RunUserData = ''aGVsbG8='', SecurityGroupIds = [''sg-1''],
               BlockDeviceMappings = [\<lparr>DeviceName = ''/dev/sdh'', Ebs = \<lparr>VolumeSize = 20\<rparr>\<rparr>],
               TagSpecifications =
                 [\<lparr>ResourceType = ''instance'',
                   Tags = [\<lparr>TagKey = ''name'', TagValue = ''exit-node''\<rparr>]\<rparr>]\<rparr>]\<rparr>)"
    by (simp add: Provision_def world0_def host0_def map_get_def findAMI_test_backend_img1
        ParseInt_70000 getOrCreateDefaultVPC_test_backend_default createSecurityGroup_test_backend
        invoke_def test_backend_simps reservationToPrivionedHost_def new_instance_def
        run_input_def encode_hello)
qed

text \<open>
  Claim C8 as amended. \<open>createSecurityGroup\<close> does not validate the tunnel port. For every
  port, in or out of 1-65535, it asks the backend to create the group; when that succeeds it
  authorizes TCP/80, TCP/443 and TCP/port for the new group and returns the group's
  identifier with whatever error the authorization gave (none on success). It fails only
  when the backend does.
\<close>

theorem createSecurityGroup_any_port:
  assumes "CreateSecurityGroup p
             \<lparr>Description = ''Inlets security group'', GroupName = ''inlets-sg-'' @ hostname,
              GroupVpcId = vpcID\<rparr> (backend w) = (Inr groupId, s1)"
    and "AuthorizeSecurityGroupIngress p
           \<lparr>GroupId = groupId,
            IpPermissions = [tcp_rule 80, tcp_rule 443, tcp_rule inletsPort]\<rparr> s1 = (err, s2)"
  shows "createSecurityGroup p vpcID hostname inletsPort w =
           ((groupId, err),
            \<lparr>backend = s2,
             calls = calls w @
               [CreateSecurityGroupCall
                  \<lparr>Description = ''Inlets security group'', GroupName = ''inlets-sg-'' @ hostname,
                   GroupVpcId = vpcID\<rparr>,
                AuthorizeSecurityGroupIngressCall
                  \<lparr>GroupId = groupId,
                   IpPermissions = [tcp_rule 80, tcp_rule 443, tcp_rule inletsPort]\<rparr>]\<rparr>)"
  using assms by (rule createSecurityGroup_unfold)

theorem createSecurityGroup_any_port_witness:
  "createSecurityGroup (test_backend [] []) ''vpc-1'' ''exit-node'' (- 1) (world0 []) =
     ((''sg-1'', None),
      \<lparr>backend = [],
       calls =
         [CreateSecurityGroupCall
            \<lparr>Description = ''Inlets security group'', GroupName = ''inlets-sg-exit-node'',
             GroupVpcId = ''vpc-1''\<rparr>,
          AuthorizeSecurityGroupIngressCall
            \<lparr>GroupId = ''sg-1'',
             IpPermissions = [tcp_rule 80, tcp_rule 443, tcp_rule (- 1)]\<rparr>]\<rparr>)"
proof -
  have c: "CreateSecurityGroup (test_backend [] [])
             \<lparr>Description = ''Inlets security group'', GroupName = ''inlets-sg-'' @ ''exit-node'',
              GroupVpcId = ''vpc-1''\<rparr> (backend (world0 [])) = (Inr ''sg-1'', [])"
    by (simp add: test_backend_simps world0_def)
  have a: "AuthorizeSecurityGroupIngress (test_backend [] [])
           \<lparr>GroupId = ''sg-1'',
            IpPermissions = [tcp_rule 80, tcp_rule 443, tcp_rule (- 1)]\<rparr> [] = (None, [])"
    by (simp add: test_backend_simps)
  from createSecurityGroup_any_port [OF c a] show ?thesis
    by (simp add: world0_def)
qed

lemma findAMI_calls:
  "calls (snd (findAMI lib p name w)) = calls w @ [DescribeImagesCall (findAMI_input name)]"
  by (simp add: findAMI_def invoke_def Let_def split: prod.splits sum.splits list.splits)

text \<open>
  Claim C9 fails on the code: \<open>Provision\<close> resolves the image first (line 48) and parses the
  tunnel port afterwards (line 53). With an empty extra-parameter map and a backend that
  lists one image, \<open>Provision\<close> fails with the syntax error of \<open>strconv.ParseInt\<close> on the empty
  string, and by then the image query has been sent.
\<close>

theorem Provision_queries_images_before_port:
  "Provision lib0 (test_backend [img1] []) (host0 Map.empty) (world0 [default_vpc]) =
     (Inl (NumError [] ErrSyntax),
      \<lparr>backend = [default_vpc], calls = [DescribeImagesCall (findAMI_input ''ubuntu'')]\<rparr>)"
  by (simp add: Provision_def world0_def host0_def map_get_def findAMI_test_backend_img1
      ParseInt_empty)

text \<open>
  Claim C9 as amended. When the tunnel-port parameter is missing or does not parse as an
  integer, \<open>Provision\<close> never returns a host, and the image query is the one backend call it
  issues: if image resolution fails, \<open>Provision\<close> fails the same way; otherwise it fails with
  the error of \<open>strconv.ParseInt\<close>. No network, security-group or instance call is made.
\<close>

theorem Provision_unparsable_port:
  assumes "ParseInt (map_get (Additional host) ''inlets-port'') = Inl e"
  shows "\<exists>err. fst (Provision lib p host w) = Inl err
           \<and> (fst (findAMI lib p (OS host) w) = Inl err
                \<or> (\<exists>ami. fst (findAMI lib p (OS host) w) = Inr ami) \<and> err = e)
           \<and> snd (Provision lib p host w) = snd (findAMI lib p (OS host) w)
           \<and> calls (snd (Provision lib p host w)) =
               calls w @ [DescribeImagesCall (findAMI_input (OS host))]"
proof (cases "findAMI lib p (OS host) w")
  case (Pair found w1)
  have log: "calls w1 = calls w @ [DescribeImagesCall (findAMI_input (OS host))]"
    using findAMI_calls [of lib p "OS host" w] Pair by simp
  show ?thesis
  proof (cases found)
    case (Inl err)
    with Pair log show ?thesis
      by (simp add: Provision_def)
  next
    case (Inr ami)
    with Pair log assms show ?thesis
      by (simp add: Provision_def)
  qed
qed

theorem Provision_unparsable_port_witness:
  "fst (Provision lib0 (test_backend [img1] []) (host0 Map.empty) (world0 [])) = Inl (NumError [] ErrSyntax)
   \<and> fst (Provision lib0 (test_backend [] []) (host0 [''inlets-port'' \<mapsto> ''http'']) (world0 []))
       = Inl (PanicIndexOutOfRange 0 0)
   \<and> calls (snd (Provision lib0 (test_backend [img1] []) (host0 Map.empty) (world0 []))) =
       [DescribeImagesCall (findAMI_input ''ubuntu'')]"
proof -
  have missing: "ParseInt (map_get (Additional (host0 Map.empty)) ''inlets-port'') = Inl (NumError [] ErrSyntax)"
    by (simp add: host0_def map_get_def ParseInt_empty)
  have word: "ParseInt (map_get (Additional (host0 [''inlets-port'' \<mapsto> ''http''])) ''inlets-port'')
                = Inl (NumError ''http'' ErrSyntax)"
    by (simp add: host0_def map_get_def ParseInt_word)
  have found: "fst (findAMI lib0 (test_backend [img1] []) (OS (host0 Map.empty)) (world0 [])) = Inr ''img-1''"
    by (simp add: world0_def findAMI_test_backend_img1)
  have none: "fst (findAMI lib0 (test_backend [] []) (OS (host0 [''inlets-port'' \<mapsto> ''http''])) (world0 []))
                = Inl (PanicIndexOutOfRange 0 0)"
  proof -
    have "DescribeImages (test_backend [] []) (findAMI_input (OS (host0 [''inlets-port'' \<mapsto> ''http''])))
            (backend (world0 [])) = (Inr [], [])"
      by (simp add: test_backend_simps world0_def)
    from findAMI_unfold [OF this] show ?thesis
      by (simp add: sort_Slice_Nil)
  qed
  from Provision_unparsable_port
      [OF missing, where lib = lib0 and p = "test_backend [img1] []" and w = "world0 []"] found
  have a: "fst (Provision lib0 (test_backend [img1] []) (host0 Map.empty) (world0 [])) = Inl (NumError [] ErrSyntax)"
    and c: "calls (snd (Provision lib0 (test_backend [img1] []) (host0 Map.empty) (world0 []))) =
       [DescribeImagesCall (findAMI_input ''ubuntu'')]"
    by (auto simp: world0_def host0_def)
  from Provision_unparsable_port
      [OF word, where lib = lib0 and p = "test_backend [] []" and w = "world0 []"] none
  have b: "fst (Provision lib0 (test_backend [] []) (host0 [''inlets-port'' \<mapsto> ''http'']) (world0 []))
       = Inl (PanicIndexOutOfRange 0 0)"
    by auto
  from a b c show ?thesis
    by blast
qed

end
